theory Spec2Isabelle
  imports Main
begin

section \<open>The CR to UX synchronizer (pkg/server/event/sync/cr2ux.go)\<close>

text \<open>
  A shallow embedding of \<^verbatim>\<open>cr2ux.go\<close>: the naming resolver \<^verbatim>\<open>getApp\<close>, the two
  synchronisation paths, the dispatcher \<^verbatim>\<open>AddOrUpdate\<close> and \<^verbatim>\<open>DeleteApp\<close>.

  The file calls into a datastore, several services and a number of helpers of its own
  package that are declared in other files. Each of them is a field of the receiver
  record below, so every theorem holds for every implementation of them. The datastore
  and the services share one state of type \<open>'s\<close>; a call that can change it takes the
  state and returns the new one. \<^verbatim>\<open>klog\<close> output and the \<^verbatim>\<open>context.Context\<close> argument have
  no influence on the control flow and are left out.
\<close>

subsection \<open>Data\<close>

text \<open>
  A Go error value. \<^verbatim>\<open>datastore.ErrRecordNotExist\<close> is the "not found" signal of the
  store; \<open>Errorf msg\<close> is any other error, carrying its message.
\<close>

datatype error = ErrRecordNotExist | Errorf string

text \<open>
  \<^verbatim>\<open>model.Application\<close>, the persisted record. \<open>Name\<close> is its primary key; of the other
  fields only \<open>Labels\<close> is read in this file.
\<close>

record Application =
  Name :: string
  Labels :: "string \<rightharpoonup> string"

text \<open>\<^verbatim>\<open>targetApp.Status.Workflow\<close>, a pointer to a status with the field \<^verbatim>\<open>AppRevision\<close>.\<close>

record WorkflowStatus =
  AppRevision :: string

text \<open>
  \<^verbatim>\<open>v1beta1.Application\<close>, the live resource. A nil annotation map and an empty one
  read alike (every key yields the empty string), so both are the empty map.
\<close>

record ApplicationCR =
  cr_Name :: string
  cr_Namespace :: string
  cr_Annotations :: "string \<rightharpoonup> string"
  cr_Status_Workflow :: "WorkflowStatus option"

text \<open>
  \<^verbatim>\<open>DataStoreApp\<close>, the conversion result. The entities it bundles are never inspected
  in this file; \<open>'e\<close> stands for their types. \<open>Project\<close> and \<open>Revision\<close> are pointers
  and may be nil.
\<close>

record 'e DataStoreApp =
  AppMeta :: Application
  Project :: "'e option"
  Targets :: "'e list"
  Eb :: "'e list"
  Comps :: "'e list"
  Policies :: "'e list"
  Revision :: "'e option"

text \<open>An entry of the revision cache: the last synced revision and the target count.\<close>

record cached =
  revision :: string
  targets :: int

type_synonym cache_map = "string \<rightharpoonup> cached"

text \<open>Reading a Go \<^verbatim>\<open>map[string]string\<close>: a missing key yields the empty string.\<close>

definition go_index :: "(string \<rightharpoonup> string) \<Rightarrow> string \<Rightarrow> string" where
  "go_index m k = (case m k of None \<Rightarrow> [] | Some v \<Rightarrow> v)"

subsection \<open>The receiver and its collaborators\<close>

text \<open>
  The struct \<^verbatim>\<open>CR2UX\<close> together with everything the file uses from elsewhere:
  the three annotation and label keys, the datastore (\<^verbatim>\<open>c.ds\<close>), the classifier methods,
  the conversion, the ten storing helpers, \<^verbatim>\<open>getSyncedRevision\<close>, the workflow service
  and the optional application service (\<open>None\<close> when \<^verbatim>\<open>c.applicationService == nil\<close>).
  \<^verbatim>\<open>ds.Get\<close> receives an entity carrying the primary key and fills it in.
\<close>

record ('s, 'e) CR2UX =
  LabelSyncNamespace :: string
  AnnotationAppName :: string
  AnnotationPublishVersion :: string
  ds_Get :: "Application \<Rightarrow> 's \<Rightarrow> error + Application"
  ds_Delete :: "Application \<Rightarrow> 's \<Rightarrow> error option \<times> 's"
  appFromUX :: "ApplicationCR \<Rightarrow> bool"
  appFromCLI :: "ApplicationCR \<Rightarrow> bool"
  shouldSyncMetaFromCLI :: "ApplicationCR \<Rightarrow> bool \<Rightarrow> 's \<Rightarrow> cache_map \<Rightarrow> bool \<times> cache_map"
  ConvertApp2DatastoreApp :: "ApplicationCR \<Rightarrow> 's \<Rightarrow> (error + 'e DataStoreApp) \<times> 's"
  StoreProject :: "'e \<Rightarrow> 's \<Rightarrow> error option \<times> 's"
  StoreTargets :: "'e DataStoreApp \<Rightarrow> 's \<Rightarrow> error option \<times> 's"
  StoreEnv :: "'e DataStoreApp \<Rightarrow> 's \<Rightarrow> error option \<times> 's"
  StoreEnvBinding :: "'e list \<Rightarrow> 's \<Rightarrow> error option \<times> 's"
  StoreComponents :: "string \<Rightarrow> 'e list \<Rightarrow> 's \<Rightarrow> error option \<times> 's"
  StorePolicy :: "string \<Rightarrow> 'e list \<Rightarrow> 's \<Rightarrow> error option \<times> 's"
  StoreWorkflow :: "'e DataStoreApp \<Rightarrow> 's \<Rightarrow> error option \<times> 's"
  StoreApplicationRevision :: "'e DataStoreApp \<Rightarrow> 's \<Rightarrow> error option \<times> 's"
  StoreWorkflowRecord :: "'e DataStoreApp \<Rightarrow> 's \<Rightarrow> error option \<times> 's"
  StoreAppMeta :: "'e DataStoreApp \<Rightarrow> 's \<Rightarrow> error option \<times> 's"
  getSyncedRevision :: "'e option \<Rightarrow> string"
  SyncWorkflowRecord :: "string \<Rightarrow> string \<Rightarrow> ApplicationCR \<Rightarrow> 's \<Rightarrow> error option \<times> 's"
  DeleteApplication :: "(Application option \<Rightarrow> 's \<Rightarrow> error option \<times> 's) option"

subsection \<open>The naming resolver\<close>

definition formatAppComposedName :: "string \<Rightarrow> string \<Rightarrow> string" where
  "formatAppComposedName name namespace = name @ ''-'' @ namespace"

text \<open>
  \<^verbatim>\<open>getApp\<close> returns the record (a pointer, \<open>None\<close> for nil), the canonical key and the
  error. The composed key is probed first, then the bare name.
\<close>

definition getApp ::
  "('s, 'e) CR2UX \<Rightarrow> string \<Rightarrow> string \<Rightarrow> 's \<Rightarrow> Application option \<times> string \<times> error option" where
  "getApp c name namespace w =
     (case ds_Get c \<lparr>Name = formatAppComposedName name namespace, Labels = Map.empty\<rparr> w of
        Inr alreadyCreated \<Rightarrow> (Some alreadyCreated, Name alreadyCreated, None)
      | Inl err1 \<Rightarrow>
          (case ds_Get c \<lparr>Name = name, Labels = Map.empty\<rparr> w of
             Inr existApp \<Rightarrow>
               (let en = go_index (Labels existApp) (LabelSyncNamespace c) in
                if en \<noteq> namespace
                then (None, formatAppComposedName name namespace, Some err1)
                else (Some existApp, name, None))
           | Inl err2 \<Rightarrow> (None, name, Some err2)))"

definition getAppMetaName :: "('s, 'e) CR2UX \<Rightarrow> string \<Rightarrow> string \<Rightarrow> 's \<Rightarrow> string" where
  "getAppMetaName c name namespace w = fst (snd (getApp c name namespace w))"

subsection \<open>State and collaborator calls\<close>

text \<open>
  A call that may change something outside the function making it is recorded, in
  order, in \<open>calls\<close>: the metadata gate, the conversion, the storing helpers, the cache
  update, the workflow service, and the two ways of deleting. The store keys and the
  record name are kept with the event, since the properties below speak about them.
\<close>

datatype event =
    CallShouldSyncMetaFromCLI bool
  | CallConvertApp2DatastoreApp
  | CallStoreProject
  | CallStoreTargets
  | CallStoreEnv
  | CallStoreEnvBinding
  | CallStoreComponents
  | CallStorePolicy
  | CallStoreWorkflow
  | CallStoreApplicationRevision
  | CallStoreWorkflowRecord
  | CallStoreAppMeta
  | CallSyncCache string string int
  | CallSyncWorkflowRecord string string
  | CallDsDelete string
  | CallDeleteApplication "string option"

text \<open>
  What a method of \<^verbatim>\<open>CR2UX\<close> can read and change: the state shared by the datastore and
  the services (\<open>world\<close>), the revision cache \<^verbatim>\<open>c.cache\<close>, and the record of calls.
\<close>

record 's sync_state =
  world :: 's
  cache :: cache_map
  calls :: "event list"

definition invoke :: "event \<Rightarrow> ('s \<Rightarrow> 'a \<times> 's) \<Rightarrow> 's sync_state \<Rightarrow> 'a \<times> 's sync_state" where
  "invoke ev f \<sigma> =
     (case f (world \<sigma>) of
        (r, w') \<Rightarrow> (r, \<lparr>world = w', cache = cache \<sigma>, calls = calls \<sigma> @ [ev]\<rparr>))"

text \<open>
  A run of \<^verbatim>\<open>if err = step(...); err != nil { return err }\<close> statements: the steps are
  called in order and the first error is returned at once.
\<close>

fun run_steps ::
  "(event \<times> ('s \<Rightarrow> error option \<times> 's)) list \<Rightarrow> 's sync_state \<Rightarrow> error option \<times> 's sync_state" where
  "run_steps [] \<sigma> = (None, \<sigma>)"
| "run_steps ((ev, f) # fs) \<sigma> =
     (case invoke ev f \<sigma> of
        (Some err, \<sigma>') \<Rightarrow> (Some err, \<sigma>')
      | (None, \<sigma>') \<Rightarrow> run_steps fs \<sigma>')"

subsection \<open>Helpers declared outside the file\<close>

text \<open>
  Modelled from the spec: \<^verbatim>\<open>c.syncCache\<close> is declared in another file of the package;
  the spec gives its contract as \<open>put(key, revision, targetCount)\<close>, which creates or
  overwrites the entry of the key.
\<close>

definition syncCache :: "string \<Rightarrow> string \<Rightarrow> int \<Rightarrow> 's sync_state \<Rightarrow> 's sync_state" where
  "syncCache key syncedVersion n \<sigma> =
     \<lparr>world = world \<sigma>,
      cache = (cache \<sigma>)(key \<mapsto> \<lparr>revision = syncedVersion, targets = n\<rparr>),
      calls = calls \<sigma> @ [CallSyncCache key syncedVersion n]\<rparr>"

text \<open>
  Modelled from the spec: \<^verbatim>\<open>oam.GetPublishVersion\<close> belongs to a library outside this
  repository; it yields the publish-version annotation if present, else the empty string.
\<close>

definition GetPublishVersion :: "('s, 'e) CR2UX \<Rightarrow> ApplicationCR \<Rightarrow> string" where
  "GetPublishVersion c targetApp = go_index (cr_Annotations targetApp) (AnnotationPublishVersion c)"

text \<open>
  \<^verbatim>\<open>strings.Replace(s, old, new, n)\<close> of the Go standard library, for a non-empty \<open>old\<close>:
  the first \<open>n\<close> non-overlapping occurrences of \<open>old\<close>, from the left, are replaced by
  \<open>new\<close>; a negative \<open>n\<close> sets no limit. (The library's rule for an empty \<open>old\<close> is not
  used by the file and is left undefined.)
\<close>

fun strings_Replace :: "string \<Rightarrow> string \<Rightarrow> string \<Rightarrow> int \<Rightarrow> string" where
  "strings_Replace [] (c # cs) new n = []"
| "strings_Replace (x # xs) (c # cs) new n =
     (if n = 0 then x # xs
      else if take (Suc (length cs)) (x # xs) = c # cs
      then new @ strings_Replace (drop (length cs) xs) (c # cs) new (n - 1)
      else x # strings_Replace xs (c # cs) new n)"

text \<open>
  The spec's words for the fallback record name, "colon replaced by a single hyphen",
  read on the first colon: everything before the first colon, a hyphen, everything
  after it; a string without a colon is unchanged.
\<close>

definition first_colon_to_hyphen :: "string \<Rightarrow> string" where
  "first_colon_to_hyphen s =
     (case dropWhile (\<lambda>x. x \<noteq> CHR '':'') s of
        [] \<Rightarrow> s
      | x # rest \<Rightarrow> takeWhile (\<lambda>x. x \<noteq> CHR '':'') s @ CHR ''-'' # rest)"

subsection \<open>The console path\<close>

definition syncAppCreatedByUX ::
  "('s, 'e) CR2UX \<Rightarrow> ApplicationCR \<Rightarrow> 's sync_state \<Rightarrow> error option \<times> 's sync_state" where
  "syncAppCreatedByUX c targetApp \<sigma> =
     (let appPrimaryKey = go_index (cr_Annotations targetApp) (AnnotationAppName c) in
      if appPrimaryKey = []
      then (Some (Errorf (''appName is empty in application '' @ cr_Name targetApp)), \<sigma>)
      else
        (let recordName = go_index (cr_Annotations targetApp) (AnnotationPublishVersion c) in
         invoke (CallSyncWorkflowRecord appPrimaryKey recordName)
           (SyncWorkflowRecord c appPrimaryKey recordName targetApp) \<sigma>))"

subsection \<open>The CLI path\<close>

text \<open>The storing steps of \<^verbatim>\<open>syncAppCreatedByCLI\<close>, in the order of the source.\<close>

definition persist_steps ::
  "('s, 'e) CR2UX \<Rightarrow> 'e DataStoreApp \<Rightarrow> (event \<times> ('s \<Rightarrow> error option \<times> 's)) list" where
  "persist_steps c dsApp =
     (case Project dsApp of
        None \<Rightarrow> []
      | Some project \<Rightarrow> [(CallStoreProject, StoreProject c project)]) @
     [(CallStoreTargets, StoreTargets c dsApp),
      (CallStoreEnv, StoreEnv c dsApp),
      (CallStoreEnvBinding, StoreEnvBinding c (Eb dsApp)),
      (CallStoreComponents, StoreComponents c (Name (AppMeta dsApp)) (Comps dsApp)),
      (CallStorePolicy, StorePolicy c (Name (AppMeta dsApp)) (Policies dsApp)),
      (CallStoreWorkflow, StoreWorkflow c dsApp),
      (CallStoreApplicationRevision, StoreApplicationRevision c dsApp),
      (CallStoreWorkflowRecord, StoreWorkflowRecord c dsApp),
      (CallStoreAppMeta, StoreAppMeta c dsApp)]"

text \<open>
  The first statement of \<^verbatim>\<open>syncAppCreatedByCLI\<close>: the block guarded by
  \<^verbatim>\<open>c.shouldSyncMetaFromCLI(ctx, targetApp, false)\<close>. The gate is a method of \<^verbatim>\<open>CR2UX\<close>
  declared elsewhere; it may read the store and touch the cache. An error leaves the
  function; \<open>None\<close> means that control reaches the statements after the block. The
  target count \<^verbatim>\<open>int64(len(dsApp.Targets))\<close> is an \<open>int\<close>: the length of a slice always
  fits 64 bits.
\<close>

definition syncMetaFromCLI ::
  "('s, 'e) CR2UX \<Rightarrow> ApplicationCR \<Rightarrow> 's sync_state \<Rightarrow> error option \<times> 's sync_state" where
  "syncMetaFromCLI c targetApp \<sigma> =
     (case shouldSyncMetaFromCLI c targetApp False (world \<sigma>) (cache \<sigma>) of
        (due, ch) \<Rightarrow>
          (let \<sigma>1 = \<lparr>world = world \<sigma>, cache = ch,
                     calls = calls \<sigma> @ [CallShouldSyncMetaFromCLI False]\<rparr> in
           if due then
             (case invoke CallConvertApp2DatastoreApp (ConvertApp2DatastoreApp c targetApp) \<sigma>1 of
                (Inl err, \<sigma>2) \<Rightarrow> (Some err, \<sigma>2)
              | (Inr dsApp, \<sigma>2) \<Rightarrow>
                  (case run_steps (persist_steps c dsApp) \<sigma>2 of
                     (Some err, \<sigma>3) \<Rightarrow> (Some err, \<sigma>3)
                   | (None, \<sigma>3) \<Rightarrow>
                       (let key = formatAppComposedName (cr_Name targetApp) (cr_Namespace targetApp);
                            syncedVersion = getSyncedRevision c (Revision dsApp)
                        in (None, syncCache key syncedVersion (int (length (Targets dsApp))) \<sigma>3))))
           else (None, \<sigma>1)))"

definition syncAppCreatedByCLI ::
  "('s, 'e) CR2UX \<Rightarrow> ApplicationCR \<Rightarrow> 's sync_state \<Rightarrow> error option \<times> 's sync_state" where
  "syncAppCreatedByCLI c targetApp \<sigma> =
     (case syncMetaFromCLI c targetApp \<sigma> of
        (Some err, \<sigma>') \<Rightarrow> (Some err, \<sigma>')
      | (None, \<sigma>') \<Rightarrow>
          (let recordName0 = GetPublishVersion c targetApp;
               recordName =
                 (if recordName0 = [] then
                    (case cr_Status_Workflow targetApp of
                       Some workflow \<Rightarrow> strings_Replace (AppRevision workflow) '':'' ''-'' 1
                     | None \<Rightarrow> recordName0)
                  else recordName0);
               appName = getAppMetaName c (cr_Name targetApp) (cr_Namespace targetApp) (world \<sigma>')
           in invoke (CallSyncWorkflowRecord appName recordName)
                (SyncWorkflowRecord c appName recordName targetApp) \<sigma>'))"

subsection \<open>The entry points\<close>

definition AddOrUpdate ::
  "('s, 'e) CR2UX \<Rightarrow> ApplicationCR \<Rightarrow> 's sync_state \<Rightarrow> error option \<times> 's sync_state" where
  "AddOrUpdate c targetApp \<sigma> =
     (if appFromUX c targetApp then syncAppCreatedByUX c targetApp \<sigma>
      else if appFromCLI c targetApp then syncAppCreatedByCLI c targetApp \<sigma>
      else (None, \<sigma>))"

text \<open>
  \<^verbatim>\<open>DeleteApp\<close>. The guard \<^verbatim>\<open>!c.appFromCLI(targetApp) && !c.shouldSyncMetaFromCLI(...)\<close>
  evaluates the gate only for a resource that is not CLI-origin. Without an application
  service the record \<^verbatim>\<open>&model.Application{Name: appName}\<close> is deleted from the store.
\<close>

definition DeleteApp ::
  "('s, 'e) CR2UX \<Rightarrow> ApplicationCR \<Rightarrow> 's sync_state \<Rightarrow> error option \<times> 's sync_state" where
  "DeleteApp c targetApp \<sigma> =
     (case (if appFromCLI c targetApp then (False, \<sigma>)
            else (case shouldSyncMetaFromCLI c targetApp True (world \<sigma>) (cache \<sigma>) of
                    (due, ch) \<Rightarrow>
                      (\<not> due, \<lparr>world = world \<sigma>, cache = ch,
                                calls = calls \<sigma> @ [CallShouldSyncMetaFromCLI True]\<rparr>))) of
        (skip, \<sigma>1) \<Rightarrow>
          if skip then (None, \<sigma>1)
          else
            (case getApp c (cr_Name targetApp) (cr_Namespace targetApp) (world \<sigma>1) of
               (app, appName, Some err) \<Rightarrow> (Some err, \<sigma>1)
             | (app, appName, None) \<Rightarrow>
                 (case DeleteApplication c of
                    None \<Rightarrow>
                      invoke (CallDsDelete appName)
                        (ds_Delete c \<lparr>Name = appName, Labels = Map.empty\<rparr>) \<sigma>1
                  | Some deleteApplication \<Rightarrow>
                      invoke (CallDeleteApplication (map_option Name app))
                        (deleteApplication app) \<sigma>1)))"

subsection \<open>An in-memory datastore\<close>

text \<open>
  Modelled from the spec: \<^verbatim>\<open>datastore.DataStore\<close> is an interface declared outside this
  file; the spec describes it as get, put and delete by primary key with "not found"
  signalling. This instance keeps the application table as a finite map from primary key
  to record. It serves to run the definitions on concrete stores.
\<close>

type_synonym mem_store = "string \<rightharpoonup> Application"

definition mem_Get :: "Application \<Rightarrow> mem_store \<Rightarrow> error + Application" where
  "mem_Get entity m = (case m (Name entity) of None \<Rightarrow> Inl ErrRecordNotExist | Some a \<Rightarrow> Inr a)"

definition mem_Delete :: "Application \<Rightarrow> mem_store \<Rightarrow> error option \<times> mem_store" where
  "mem_Delete entity m =
     (case m (Name entity) of
        None \<Rightarrow> (Some ErrRecordNotExist, m)
      | Some a \<Rightarrow> (None, m(Name entity := None)))"

subsection \<open>Stand-ins for the collaborators\<close>

text \<open>
  A receiver over the in-memory datastore, for running the functions on concrete inputs.
  The classification of the resource, the answer of the metadata gate and the result of
  the components step are chosen by the arguments. The storing steps other than the
  last one and the workflow service succeed and change nothing; the
  application-metadata step writes the record into the store. No application service is
  configured. \<open>mem_base\<close> has a conversion that only fails; \<open>mem_CR2UX\<close> replaces it by
  one that resolves the record name with \<open>getAppMetaName\<close> and yields the bundle
  \<open>mem_dsApp\<close>, without project and with two targets.
\<close>

definition mem_base :: "bool \<Rightarrow> bool \<Rightarrow> bool \<Rightarrow> error option \<Rightarrow> (mem_store, string) CR2UX" where
  "mem_base fromUX fromCLI due compsResult =
     \<lparr>LabelSyncNamespace = ''ux.oam.dev/from-namespace'',
      AnnotationAppName = ''app.oam.dev/appName'',
      AnnotationPublishVersion = ''app.oam.dev/publishVersion'',
      ds_Get = mem_Get,
      ds_Delete = mem_Delete,
      appFromUX = (\<lambda>targetApp. fromUX),
      appFromCLI = (\<lambda>targetApp. fromCLI),
      shouldSyncMetaFromCLI = (\<lambda>targetApp del m ch. (due, ch)),
      ConvertApp2DatastoreApp = (\<lambda>targetApp m. (Inl (Errorf ''no conversion''), m)),
      StoreProject = (\<lambda>project m. (None, m)),
      StoreTargets = (\<lambda>dsApp m. (None, m)),
      StoreEnv = (\<lambda>dsApp m. (None, m)),
      StoreEnvBinding = (\<lambda>eb m. (None, m)),
      StoreComponents = (\<lambda>appName comps m. (compsResult, m)),
      StorePolicy = (\<lambda>appName policies m. (None, m)),
      StoreWorkflow = (\<lambda>dsApp m. (None, m)),
      StoreApplicationRevision = (\<lambda>dsApp m. (None, m)),
      StoreWorkflowRecord = (\<lambda>dsApp m. (None, m)),
      StoreAppMeta = (\<lambda>dsApp m. (None, m(Name (AppMeta dsApp) \<mapsto> AppMeta dsApp))),
      getSyncedRevision = (\<lambda>r. case r of None \<Rightarrow> [] | Some v \<Rightarrow> v),
      SyncWorkflowRecord = (\<lambda>appPrimaryKey recordName targetApp m. (None, m)),
      DeleteApplication = None\<rparr>"

definition mem_dsApp :: "string \<Rightarrow> string \<Rightarrow> string DataStoreApp" where
  "mem_dsApp appName namespace =
     \<lparr>AppMeta = \<lparr>Name = appName, Labels = [''ux.oam.dev/from-namespace'' \<mapsto> namespace]\<rparr>,
      Project = None, Targets = [''t1'', ''t2''], Eb = [], Comps = [''c1''],
      Policies = [], Revision = Some ''web-v1''\<rparr>"

definition mem_CR2UX :: "bool \<Rightarrow> bool \<Rightarrow> bool \<Rightarrow> error option \<Rightarrow> (mem_store, string) CR2UX" where
  "mem_CR2UX fromUX fromCLI due compsResult =
     (mem_base fromUX fromCLI due compsResult)
       \<lparr>ConvertApp2DatastoreApp := (\<lambda>targetApp m.
          (Inr (mem_dsApp
                  (getAppMetaName (mem_base fromUX fromCLI due compsResult)
                     (cr_Name targetApp) (cr_Namespace targetApp) m)
                  (cr_Namespace targetApp)), m))\<rparr>"

text \<open>
  Two stores. In \<open>store_bare\<close> the bare name \<open>web\<close> belongs to namespace \<open>ns-a\<close>. In
  \<open>store_both\<close> the application \<open>web\<close> of namespace \<open>ns-b\<close> has been synced as well and
  has its record under the composed key.
\<close>

definition record_a :: Application where
  "record_a = \<lparr>Name = ''web'', Labels = [''ux.oam.dev/from-namespace'' \<mapsto> ''ns-a'']\<rparr>"

definition record_b :: Application where
  "record_b = \<lparr>Name = ''web-ns-b'', Labels = [''ux.oam.dev/from-namespace'' \<mapsto> ''ns-b'']\<rparr>"

definition store_bare :: mem_store where
  "store_bare = [''web'' \<mapsto> record_a]"

definition store_both :: mem_store where
  "store_both = [''web'' \<mapsto> record_a, ''web-ns-b'' \<mapsto> record_b]"

text \<open>A live resource \<open>web\<close> in namespace \<open>ns-b\<close>, with the given annotations and status.\<close>

definition web_cr :: "(string \<rightharpoonup> string) \<Rightarrow> WorkflowStatus option \<Rightarrow> ApplicationCR" where
  "web_cr annotations workflow =
     \<lparr>cr_Name = ''web'', cr_Namespace = ''ns-b'', cr_Annotations = annotations,
      cr_Status_Workflow = workflow\<rparr>"

definition start :: "mem_store \<Rightarrow> mem_store sync_state" where
  "start m = \<lparr>world = m, cache = Map.empty, calls = []\<rparr>"

section \<open>Auxiliary facts\<close>

lemma formatAppComposedName_neq: "cr_Name targetApp \<noteq> formatAppComposedName (cr_Name targetApp) namespace"
  by (simp add: formatAppComposedName_def)

lemma invoke_calls: "calls (snd (invoke ev f \<sigma>)) = calls \<sigma> @ [ev]"
  by (simp add: invoke_def split: prod.splits)

lemma invoke_cache: "cache (snd (invoke ev f \<sigma>)) = cache \<sigma>"
  by (simp add: invoke_def split: prod.splits)

lemma invoke_world: "world (snd (invoke ev f \<sigma>)) = snd (f (world \<sigma>))"
  by (simp add: invoke_def split: prod.splits)

lemma run_steps_append:
  "run_steps (xs @ ys) \<sigma> =
     (case run_steps xs \<sigma> of
        (Some err, \<sigma>') \<Rightarrow> (Some err, \<sigma>')
      | (None, \<sigma>') \<Rightarrow> run_steps ys \<sigma>')"
  by (induction xs \<sigma> rule: run_steps.induct) (auto split: prod.splits option.splits)

text \<open>The storing steps never touch the revision cache.\<close>

lemma run_steps_cache: "cache (snd (run_steps fs \<sigma>)) = cache \<sigma>"
proof (induction fs \<sigma> rule: run_steps.induct)
  case (1 \<sigma>)
  show ?case by simp
next
  case (2 ev f fs \<sigma>)
  then show ?case
    using invoke_cache [of ev f \<sigma>]
    by (auto split: prod.splits option.splits)
qed

text \<open>A run without error has called every step, in order.\<close>

lemma run_steps_calls_ok:
  "run_steps fs \<sigma> = (None, \<sigma>') \<Longrightarrow> calls \<sigma>' = calls \<sigma> @ map fst fs"
proof (induction fs \<sigma> rule: run_steps.induct)
  case (1 \<sigma>)
  then show ?case by simp
next
  case (2 ev f fs \<sigma>)
  then show ?case
    using invoke_calls [of ev f \<sigma>]
    by (auto split: prod.splits option.splits)
qed

text \<open>Any run has called an initial segment of the steps.\<close>

lemma run_steps_calls:
  "\<exists>n. calls (snd (run_steps fs \<sigma>)) = calls \<sigma> @ map fst (take n fs)"
proof (induction fs \<sigma> rule: run_steps.induct)
  case (1 \<sigma>)
  show ?case by simp
next
  case (2 ev f fs \<sigma>)
  obtain r \<sigma>1 where inv: "invoke ev f \<sigma> = (r, \<sigma>1)"
    by (cases "invoke ev f \<sigma>")
  have c1: "calls \<sigma>1 = calls \<sigma> @ [ev]"
    using invoke_calls [of ev f \<sigma>] inv by simp
  show ?case
  proof (cases r)
    case None
    with 2 inv obtain n where "calls (snd (run_steps fs \<sigma>1)) = calls \<sigma>1 @ map fst (take n fs)"
      by metis
    then have "calls (snd (run_steps ((ev, f) # fs) \<sigma>)) =
                 calls \<sigma> @ map fst (take (Suc n) ((ev, f) # fs))"
      using inv None c1 by simp
    then show ?thesis by blast
  next
    case (Some e)
    then have "calls (snd (run_steps ((ev, f) # fs) \<sigma>)) =
                 calls \<sigma> @ map fst (take (Suc 0) ((ev, f) # fs))"
      using inv c1 by simp
    then show ?thesis by blast
  qed
qed

text \<open>
  When the gate answers yes and the conversion succeeds, the guarded block is the run of
  the storing steps followed, on success, by the cache update.
\<close>

lemma syncMetaFromCLI_due:
  assumes "shouldSyncMetaFromCLI c targetApp False (world \<sigma>) (cache \<sigma>) = (True, ch)"
    and "ConvertApp2DatastoreApp c targetApp (world \<sigma>) = (Inr dsApp, w2)"
  shows "syncMetaFromCLI c targetApp \<sigma> =
           (case run_steps (persist_steps c dsApp)
                   \<lparr>world = w2, cache = ch,
                    calls = calls \<sigma> @ [CallShouldSyncMetaFromCLI False, CallConvertApp2DatastoreApp]\<rparr> of
              (Some err, \<sigma>3) \<Rightarrow> (Some err, \<sigma>3)
            | (None, \<sigma>3) \<Rightarrow>
                (None, syncCache (formatAppComposedName (cr_Name targetApp) (cr_Namespace targetApp))
                         (getSyncedRevision c (Revision dsApp)) (int (length (Targets dsApp))) \<sigma>3))"
  using assms
  by (simp add: syncMetaFromCLI_def invoke_def Let_def split: prod.splits option.splits)

lemma syncMetaFromCLI_not_due:
  assumes "shouldSyncMetaFromCLI c targetApp False (world \<sigma>) (cache \<sigma>) = (False, ch)"
  shows "syncMetaFromCLI c targetApp \<sigma> =
           (None, \<lparr>world = world \<sigma>, cache = ch,
                   calls = calls \<sigma> @ [CallShouldSyncMetaFromCLI False]\<rparr>)"
  using assms by (simp add: syncMetaFromCLI_def)

lemma persist_steps_split:
  "persist_steps c dsApp =
     takeWhile (\<lambda>st. fst st \<noteq> CallStoreComponents) (persist_steps c dsApp) @
     (CallStoreComponents, StoreComponents c (Name (AppMeta dsApp)) (Comps dsApp)) #
     [(CallStorePolicy, StorePolicy c (Name (AppMeta dsApp)) (Policies dsApp)),
      (CallStoreWorkflow, StoreWorkflow c dsApp),
      (CallStoreApplicationRevision, StoreApplicationRevision c dsApp),
      (CallStoreWorkflowRecord, StoreWorkflowRecord c dsApp),
      (CallStoreAppMeta, StoreAppMeta c dsApp)]"
  by (simp add: persist_steps_def split: option.splits)

lemma persist_steps_before_components:
  "map fst (takeWhile (\<lambda>st. fst st \<noteq> CallStoreComponents) (persist_steps c dsApp)) =
     (case Project dsApp of None \<Rightarrow> [] | Some project \<Rightarrow> [CallStoreProject]) @
     [CallStoreTargets, CallStoreEnv, CallStoreEnvBinding]"
  by (simp add: persist_steps_def split: option.splits)

text \<open>The library function agrees with the spec's wording of the fallback name.\<close>

lemma strings_Replace_zero: "strings_Replace s (c # cs) new 0 = s"
  by (cases s) simp_all

lemma first_colon_to_hyphen_Cons:
  "first_colon_to_hyphen (x # s) =
     (if x = CHR '':'' then CHR ''-'' # s else x # first_colon_to_hyphen s)"
proof (cases "dropWhile (\<lambda>x. x \<noteq> CHR '':'') s")
  case Nil
  show ?thesis by (simp add: first_colon_to_hyphen_def Nil)
next
  case (Cons y ys)
  show ?thesis by (simp add: first_colon_to_hyphen_def Cons)
qed

lemma strings_Replace_first_colon:
  "strings_Replace s '':'' ''-'' 1 = first_colon_to_hyphen s"
proof (induction s)
  case Nil
  show ?case by (simp add: first_colon_to_hyphen_def)
next
  case (Cons x s)
  then show ?case
    by (simp add: first_colon_to_hyphen_Cons strings_Replace_zero)
qed

text \<open>What the stand-ins compute on the resource \<open>web\<close> of namespace \<open>ns-b\<close>.\<close>

lemma mem_gate:
  "shouldSyncMetaFromCLI (mem_CR2UX fromUX fromCLI due compsResult) targetApp del m ch = (due, ch)"
  by (simp add: mem_CR2UX_def mem_base_def)

lemma mem_convert_bare:
  "ConvertApp2DatastoreApp (mem_CR2UX fromUX fromCLI due compsResult) (web_cr annotations workflow) store_bare =
     (Inr (mem_dsApp ''web-ns-b'' ''ns-b''), store_bare)"
  by (simp add: mem_CR2UX_def mem_base_def web_cr_def getAppMetaName_def getApp_def mem_Get_def
      store_bare_def record_a_def formatAppComposedName_def go_index_def)

lemma mem_convert_empty:
  "ConvertApp2DatastoreApp (mem_CR2UX fromUX fromCLI due compsResult) (web_cr annotations workflow) Map.empty =
     (Inr (mem_dsApp ''web'' ''ns-b''), Map.empty)"
  by (simp add: mem_CR2UX_def mem_base_def web_cr_def getAppMetaName_def getApp_def mem_Get_def
      formatAppComposedName_def)

section \<open>Properties of the naming resolver\<close>

text \<open>
  C8. When the store returns a record under neither the composed key
  \<open>name-namespace\<close> nor the bare name, \<open>getApp\<close> returns no record, the bare name as
  canonical key, and the error of the second probe.
\<close>

theorem getApp_first_claim:
  assumes "ds_Get c \<lparr>Name = formatAppComposedName name namespace, Labels = Map.empty\<rparr> w = Inl err1"
    and "ds_Get c \<lparr>Name = name, Labels = Map.empty\<rparr> w = Inl err2"
  shows "getApp c name namespace w = (None, name, Some err2)"
  using assms by (simp add: getApp_def)

theorem getApp_first_claim_witness:
  "getApp (mem_CR2UX False True True None) ''api'' ''ns-a'' store_bare =
     (None, ''api'', Some ErrRecordNotExist)"
  using getApp_first_claim [of "mem_CR2UX False True True None" "''api''" "''ns-a''" store_bare
      ErrRecordNotExist ErrRecordNotExist]
  by (simp add: mem_CR2UX_def mem_base_def mem_Get_def store_bare_def formatAppComposedName_def)

text \<open>
  C1, as claimed, fails: the store \<open>store_both\<close> contains a record under the bare name
  \<open>web\<close> labelled with \<open>ns-a\<close>, and \<open>ns-b\<close> differs from \<open>ns-a\<close>, yet resolving
  \<open>(web, ns-b)\<close> returns a record, the one stored under the composed key, which is
  probed first.
\<close>

theorem getApp_claimed_name_counterexample:
  "mem_Get \<lparr>Name = ''web'', Labels = Map.empty\<rparr> store_both = Inr record_a \<and>
   go_index (Labels record_a) (LabelSyncNamespace (mem_CR2UX False True True None)) = ''ns-a'' \<and>
   ''ns-b'' \<noteq> ''ns-a'' \<and>
   getApp (mem_CR2UX False True True None) ''web'' ''ns-b'' store_both =
     (Some record_b, ''web-ns-b'', None)"
  by (simp add: getApp_def mem_CR2UX_def mem_base_def mem_Get_def store_both_def record_a_def
      record_b_def formatAppComposedName_def go_index_def)

text \<open>
  C1, amended. When the store returns no record under the composed key \<open>X-ns-b\<close> and
  returns, under the bare name \<open>X\<close>, a record whose sync-namespace label is \<open>ns-a\<close>,
  then for \<open>ns-b \<noteq> ns-a\<close> \<open>getApp\<close> returns no record, the composed key \<open>X-ns-b\<close> as
  canonical key, and the error of the composed-key probe.
\<close>

theorem getApp_name_claimed_elsewhere:
  assumes "ds_Get c \<lparr>Name = formatAppComposedName name ns_b, Labels = Map.empty\<rparr> w = Inl err1"
    and "ds_Get c \<lparr>Name = name, Labels = Map.empty\<rparr> w = Inr existApp"
    and "go_index (Labels existApp) (LabelSyncNamespace c) = ns_a"
    and "ns_b \<noteq> ns_a"
  shows "getApp c name ns_b w = (None, formatAppComposedName name ns_b, Some err1)"
  using assms by (auto simp add: getApp_def)

theorem getApp_name_claimed_elsewhere_witness:
  "getApp (mem_CR2UX False True True None) ''web'' ''ns-b'' store_bare =
     (None, ''web-ns-b'', Some ErrRecordNotExist)"
  using getApp_name_claimed_elsewhere [of "mem_CR2UX False True True None" "''web''" "''ns-b''"
      store_bare ErrRecordNotExist record_a "''ns-a''"]
  by (simp add: mem_CR2UX_def mem_base_def mem_Get_def store_bare_def record_a_def
      formatAppComposedName_def go_index_def)

section \<open>Properties of the dispatcher and the console path\<close>

text \<open>
  C6. For a console-origin resource whose application-name annotation is empty or
  absent, \<open>AddOrUpdate\<close> returns an error and leaves the state as it was: no call to
  the workflow service and no write to the store is made.
\<close>

theorem AddOrUpdate_console_without_appName:
  assumes "appFromUX c targetApp"
    and "go_index (cr_Annotations targetApp) (AnnotationAppName c) = []"
  shows "AddOrUpdate c targetApp \<sigma> =
           (Some (Errorf (''appName is empty in application '' @ cr_Name targetApp)), \<sigma>)"
  using assms by (simp add: AddOrUpdate_def syncAppCreatedByUX_def)

theorem AddOrUpdate_console_without_appName_witness:
  "AddOrUpdate (mem_CR2UX True False False None) (web_cr Map.empty None) (start store_bare) =
     (Some (Errorf ''appName is empty in application web''), start store_bare)"
  using AddOrUpdate_console_without_appName [of "mem_CR2UX True False False None"
      "web_cr Map.empty None" "start store_bare"]
  by (simp add: mem_CR2UX_def mem_base_def web_cr_def go_index_def)

text \<open>
  C9. For a resource classified as neither console-origin nor CLI-origin,
  \<open>AddOrUpdate\<close> returns nil and leaves the state as it was: nothing is called and
  nothing is written.
\<close>

theorem AddOrUpdate_unrecognized:
  assumes "\<not> appFromUX c targetApp"
    and "\<not> appFromCLI c targetApp"
  shows "AddOrUpdate c targetApp \<sigma> = (None, \<sigma>)"
  using assms by (simp add: AddOrUpdate_def)

theorem AddOrUpdate_unrecognized_witness:
  "AddOrUpdate (mem_CR2UX False False True None) (web_cr Map.empty None) (start store_bare) =
     (None, start store_bare)"
  using AddOrUpdate_unrecognized [of "mem_CR2UX False False True None" "web_cr Map.empty None"
      "start store_bare"]
  by (simp add: mem_CR2UX_def mem_base_def)

section \<open>Properties of the CLI path\<close>

text \<open>
  The statements after the guarded block: once the block has ended without error, the
  function is the call of \<open>SyncWorkflowRecord\<close> with the resolved record key and the
  record name computed from the publish version and the status.
\<close>

lemma syncAppCreatedByCLI_forward:
  assumes "syncMetaFromCLI c targetApp \<sigma> = (None, \<sigma>1)"
  shows "syncAppCreatedByCLI c targetApp \<sigma> =
           invoke
             (CallSyncWorkflowRecord
                (getAppMetaName c (cr_Name targetApp) (cr_Namespace targetApp) (world \<sigma>1))
                (if GetPublishVersion c targetApp = [] then
                   (case cr_Status_Workflow targetApp of
                      Some workflow \<Rightarrow> strings_Replace (AppRevision workflow) '':'' ''-'' 1
                    | None \<Rightarrow> [])
                 else GetPublishVersion c targetApp))
             (SyncWorkflowRecord c
                (getAppMetaName c (cr_Name targetApp) (cr_Namespace targetApp) (world \<sigma>1))
                (if GetPublishVersion c targetApp = [] then
                   (case cr_Status_Workflow targetApp of
                      Some workflow \<Rightarrow> strings_Replace (AppRevision workflow) '':'' ''-'' 1
                    | None \<Rightarrow> [])
                 else GetPublishVersion c targetApp)
                targetApp)
             \<sigma>1"
  using assms by (simp add: syncAppCreatedByCLI_def Let_def split: option.splits)

text \<open>
  C2. When the gate answers yes, the conversion succeeds, the steps before the
  components step succeed and the components step returns the error \<open>e\<close>, then
  \<open>syncAppCreatedByCLI\<close> returns exactly \<open>e\<close>; the components step is the last call
  made (no policy, workflow, revision, record or metadata step, no cache update and no
  workflow-record synchronization follow), and the cache is as the gate left it.
\<close>

theorem syncAppCreatedByCLI_components_error:
  assumes gate: "shouldSyncMetaFromCLI c targetApp False (world \<sigma>) (cache \<sigma>) = (True, ch)"
    and conv: "ConvertApp2DatastoreApp c targetApp (world \<sigma>) = (Inr dsApp, w2)"
    and before:
      "run_steps (takeWhile (\<lambda>st. fst st \<noteq> CallStoreComponents) (persist_steps c dsApp))
         \<lparr>world = w2, cache = ch,
          calls = calls \<sigma> @ [CallShouldSyncMetaFromCLI False, CallConvertApp2DatastoreApp]\<rparr> =
       (None, \<sigma>4)"
    and comps: "StoreComponents c (Name (AppMeta dsApp)) (Comps dsApp) (world \<sigma>4) = (Some e, w5)"
  shows "syncAppCreatedByCLI c targetApp \<sigma> =
           (Some e,
            \<lparr>world = w5, cache = ch,
             calls = calls \<sigma> @ [CallShouldSyncMetaFromCLI False, CallConvertApp2DatastoreApp] @
               (case Project dsApp of None \<Rightarrow> [] | Some project \<Rightarrow> [CallStoreProject]) @
               [CallStoreTargets, CallStoreEnv, CallStoreEnvBinding, CallStoreComponents]\<rparr>)"
proof -
  let ?\<sigma>2 = "\<lparr>world = w2, cache = ch,
              calls = calls \<sigma> @ [CallShouldSyncMetaFromCLI False, CallConvertApp2DatastoreApp]\<rparr>"
  let ?pre = "takeWhile (\<lambda>st. fst st \<noteq> CallStoreComponents) (persist_steps c dsApp)"
  let ?\<sigma>5 = "\<lparr>world = w5, cache = cache \<sigma>4, calls = calls \<sigma>4 @ [CallStoreComponents]\<rparr>"
  have c4: "calls \<sigma>4 = calls ?\<sigma>2 @ map fst ?pre"
    using run_steps_calls_ok [OF before] .
  have ch4: "cache \<sigma>4 = ch"
    using run_steps_cache [of ?pre ?\<sigma>2] before by simp
  have inv: "invoke CallStoreComponents (StoreComponents c (Name (AppMeta dsApp)) (Comps dsApp)) \<sigma>4 =
               (Some e, ?\<sigma>5)"
    using comps by (simp add: invoke_def)
  have run: "run_steps (persist_steps c dsApp) ?\<sigma>2 = (Some e, ?\<sigma>5)"
    by (subst persist_steps_split) (simp add: run_steps_append before inv)
  have fin: "?\<sigma>5 =
               \<lparr>world = w5, cache = ch,
                calls = calls \<sigma> @ [CallShouldSyncMetaFromCLI False, CallConvertApp2DatastoreApp] @
                  (case Project dsApp of None \<Rightarrow> [] | Some project \<Rightarrow> [CallStoreProject]) @
                  [CallStoreTargets, CallStoreEnv, CallStoreEnvBinding, CallStoreComponents]\<rparr>"
    using c4 ch4 by (simp add: persist_steps_before_components)
  show ?thesis
    using syncMetaFromCLI_due [OF gate conv] run fin
    by (simp add: syncAppCreatedByCLI_def)
qed

theorem syncAppCreatedByCLI_components_error_witness:
  "syncAppCreatedByCLI (mem_CR2UX False True True (Some (Errorf ''components'')))
     (web_cr Map.empty None) (start store_bare) =
   (Some (Errorf ''components''),
    \<lparr>world = store_bare, cache = Map.empty,
     calls = [CallShouldSyncMetaFromCLI False, CallConvertApp2DatastoreApp, CallStoreTargets,
              CallStoreEnv, CallStoreEnvBinding, CallStoreComponents]\<rparr>)"
proof -
  let ?c = "mem_CR2UX False True True (Some (Errorf ''components''))"
  have gate: "shouldSyncMetaFromCLI ?c (web_cr Map.empty None) False (world (start store_bare))
                (cache (start store_bare)) = (True, Map.empty)"
    by (simp add: mem_gate start_def)
  have conv: "ConvertApp2DatastoreApp ?c (web_cr Map.empty None) (world (start store_bare)) =
                (Inr (mem_dsApp ''web-ns-b'' ''ns-b''), store_bare)"
    by (simp add: mem_convert_bare start_def)
  have before:
    "run_steps (takeWhile (\<lambda>st. fst st \<noteq> CallStoreComponents)
                  (persist_steps ?c (mem_dsApp ''web-ns-b'' ''ns-b'')))
       \<lparr>world = store_bare, cache = Map.empty,
        calls = calls (start store_bare) @ [CallShouldSyncMetaFromCLI False, CallConvertApp2DatastoreApp]\<rparr> =
     (None, \<lparr>world = store_bare, cache = Map.empty,
             calls = [CallShouldSyncMetaFromCLI False, CallConvertApp2DatastoreApp, CallStoreTargets,
                      CallStoreEnv, CallStoreEnvBinding]\<rparr>)"
    by (simp add: persist_steps_def mem_dsApp_def invoke_def mem_CR2UX_def mem_base_def start_def)
  have comps:
    "StoreComponents ?c (Name (AppMeta (mem_dsApp ''web-ns-b'' ''ns-b'')))
       (Comps (mem_dsApp ''web-ns-b'' ''ns-b''))
       (world \<lparr>world = store_bare, cache = Map.empty,
               calls = [CallShouldSyncMetaFromCLI False, CallConvertApp2DatastoreApp, CallStoreTargets,
                        CallStoreEnv, CallStoreEnvBinding]\<rparr>) =
     (Some (Errorf ''components''), store_bare)"
    by (simp add: mem_CR2UX_def mem_base_def)
  show ?thesis
    using syncAppCreatedByCLI_components_error [OF gate conv before comps]
    by (simp add: mem_dsApp_def start_def)
qed

text \<open>
  C4. When the gate answers yes, the conversion succeeds and every storing step
  succeeds, then after \<open>syncAppCreatedByCLI\<close> has returned (whatever the workflow
  service answered) the cache maps the composed key \<open>name-namespace\<close> of the live
  resource to the synced revision of the converted revision snapshot and the number of
  targets of the conversion result.
\<close>

theorem syncAppCreatedByCLI_cache:
  assumes gate: "shouldSyncMetaFromCLI c targetApp False (world \<sigma>) (cache \<sigma>) = (True, ch)"
    and conv: "ConvertApp2DatastoreApp c targetApp (world \<sigma>) = (Inr dsApp, w2)"
    and steps:
      "run_steps (persist_steps c dsApp)
         \<lparr>world = w2, cache = ch,
          calls = calls \<sigma> @ [CallShouldSyncMetaFromCLI False, CallConvertApp2DatastoreApp]\<rparr> =
       (None, \<sigma>3)"
  shows "cache (snd (syncAppCreatedByCLI c targetApp \<sigma>))
           (formatAppComposedName (cr_Name targetApp) (cr_Namespace targetApp)) =
         Some \<lparr>revision = getSyncedRevision c (Revision dsApp),
               targets = int (length (Targets dsApp))\<rparr>"
proof -
  have "syncMetaFromCLI c targetApp \<sigma> =
          (None, syncCache (formatAppComposedName (cr_Name targetApp) (cr_Namespace targetApp))
                   (getSyncedRevision c (Revision dsApp)) (int (length (Targets dsApp))) \<sigma>3)"
    using syncMetaFromCLI_due [OF gate conv] steps by simp
  then show ?thesis
    by (simp add: syncAppCreatedByCLI_forward invoke_cache syncCache_def)
qed

text \<open>
  The witness starts from the empty store: the record is stored under the bare name
  \<open>web\<close>, and the cache entry is under the composed key \<open>web-ns-b\<close> all the same.
\<close>

theorem syncAppCreatedByCLI_cache_witness:
  "cache (snd (syncAppCreatedByCLI (mem_CR2UX False True True None) (web_cr Map.empty None)
                 (start Map.empty))) ''web-ns-b'' =
     Some \<lparr>revision = ''web-v1'', targets = 2\<rparr> \<and>
   Name (AppMeta (mem_dsApp ''web'' ''ns-b'')) = ''web''"
proof -
  let ?c = "mem_CR2UX False True True None"
  let ?\<sigma>2 = "\<lparr>world = Map.empty, cache = Map.empty,
              calls = calls (start Map.empty) @
                [CallShouldSyncMetaFromCLI False, CallConvertApp2DatastoreApp]\<rparr> :: mem_store sync_state"
  have gate: "shouldSyncMetaFromCLI ?c (web_cr Map.empty None) False (world (start Map.empty))
                (cache (start Map.empty)) = (True, Map.empty)"
    by (simp add: mem_gate start_def)
  have conv: "ConvertApp2DatastoreApp ?c (web_cr Map.empty None) (world (start Map.empty)) =
                (Inr (mem_dsApp ''web'' ''ns-b''), Map.empty)"
    by (simp add: mem_convert_empty start_def)
  have "fst (run_steps (persist_steps ?c (mem_dsApp ''web'' ''ns-b'')) ?\<sigma>2) = None"
    by (simp add: persist_steps_def mem_dsApp_def invoke_def mem_CR2UX_def mem_base_def)
  then have steps: "run_steps (persist_steps ?c (mem_dsApp ''web'' ''ns-b'')) ?\<sigma>2 =
                      (None, snd (run_steps (persist_steps ?c (mem_dsApp ''web'' ''ns-b'')) ?\<sigma>2))"
    by (metis prod.collapse)
  show ?thesis
    using syncAppCreatedByCLI_cache [OF gate conv steps]
    by (simp add: web_cr_def formatAppComposedName_def mem_dsApp_def mem_CR2UX_def mem_base_def)
qed

text \<open>
  C10. When the gate answers yes and the conversion yields a bundle whose project is
  nil, the first call after the conversion is the targets step, and the project step is
  called nowhere in the run.
\<close>

theorem syncAppCreatedByCLI_without_project:
  assumes gate: "shouldSyncMetaFromCLI c targetApp False (world \<sigma>) (cache \<sigma>) = (True, ch)"
    and conv: "ConvertApp2DatastoreApp c targetApp (world \<sigma>) = (Inr dsApp, w2)"
    and noproj: "Project dsApp = None"
  shows "\<exists>rest. calls (snd (syncAppCreatedByCLI c targetApp \<sigma>)) =
           calls \<sigma> @ [CallShouldSyncMetaFromCLI False, CallConvertApp2DatastoreApp, CallStoreTargets] @ rest \<and>
           CallStoreProject \<notin> set rest"
proof -
  let ?\<sigma>2 = "\<lparr>world = w2, cache = ch,
              calls = calls \<sigma> @ [CallShouldSyncMetaFromCLI False, CallConvertApp2DatastoreApp]\<rparr>"
  let ?tail = "[(CallStoreEnv, StoreEnv c dsApp),
      (CallStoreEnvBinding, StoreEnvBinding c (Eb dsApp)),
      (CallStoreComponents, StoreComponents c (Name (AppMeta dsApp)) (Comps dsApp)),
      (CallStorePolicy, StorePolicy c (Name (AppMeta dsApp)) (Policies dsApp)),
      (CallStoreWorkflow, StoreWorkflow c dsApp),
      (CallStoreApplicationRevision, StoreApplicationRevision c dsApp),
      (CallStoreWorkflowRecord, StoreWorkflowRecord c dsApp),
      (CallStoreAppMeta, StoreAppMeta c dsApp)]"
  have ps: "persist_steps c dsApp = (CallStoreTargets, StoreTargets c dsApp) # ?tail"
    using noproj by (simp add: persist_steps_def)
  obtain r \<sigma>3 where run: "run_steps (persist_steps c dsApp) ?\<sigma>2 = (r, \<sigma>3)"
    by (cases "run_steps (persist_steps c dsApp) ?\<sigma>2")
  obtain rt \<sigma>t where inv: "invoke CallStoreTargets (StoreTargets c dsApp) ?\<sigma>2 = (rt, \<sigma>t)"
    by (cases "invoke CallStoreTargets (StoreTargets c dsApp) ?\<sigma>2")
  have ct: "calls \<sigma>t = calls ?\<sigma>2 @ [CallStoreTargets]"
    using invoke_calls [of CallStoreTargets "StoreTargets c dsApp" ?\<sigma>2] inv by simp
  obtain n where n: "calls (snd (run_steps ?tail \<sigma>t)) = calls \<sigma>t @ map fst (take n ?tail)"
    using run_steps_calls [of ?tail \<sigma>t] by blast
  have notin: "CallStoreProject \<notin> set (map fst (take n ?tail))"
    by (auto dest!: in_set_takeD)
  have "\<exists>rest. calls \<sigma>3 = calls ?\<sigma>2 @ [CallStoreTargets] @ rest \<and> CallStoreProject \<notin> set rest"
  proof (cases rt)
    case None
    then have "\<sigma>3 = snd (run_steps ?tail \<sigma>t)"
      using run inv ps by simp
    then have "calls \<sigma>3 = calls ?\<sigma>2 @ [CallStoreTargets] @ map fst (take n ?tail)"
      using n ct by simp
    then show ?thesis using notin by blast
  next
    case (Some e)
    then have "\<sigma>3 = \<sigma>t"
      using run inv ps by simp
    then have "calls \<sigma>3 = calls ?\<sigma>2 @ [CallStoreTargets] @ []"
      using ct by simp
    then show ?thesis by (metis empty_iff empty_set)
  qed
  then obtain rest where rest: "calls \<sigma>3 = calls ?\<sigma>2 @ [CallStoreTargets] @ rest"
      "CallStoreProject \<notin> set rest"
    by blast
  have "\<exists>extra. calls (snd (syncAppCreatedByCLI c targetApp \<sigma>)) = calls \<sigma>3 @ extra \<and>
          CallStoreProject \<notin> set extra"
  proof (cases r)
    case None
    then have m: "syncMetaFromCLI c targetApp \<sigma> =
        (None, syncCache (formatAppComposedName (cr_Name targetApp) (cr_Namespace targetApp))
                 (getSyncedRevision c (Revision dsApp)) (int (length (Targets dsApp))) \<sigma>3)"
      using syncMetaFromCLI_due [OF gate conv] run by simp
    show ?thesis
      by (simp add: syncAppCreatedByCLI_forward [OF m] invoke_calls syncCache_def)
  next
    case (Some e)
    then have "syncMetaFromCLI c targetApp \<sigma> = (Some e, \<sigma>3)"
      using syncMetaFromCLI_due [OF gate conv] run by simp
    then have "calls (snd (syncAppCreatedByCLI c targetApp \<sigma>)) = calls \<sigma>3 @ []"
      by (simp add: syncAppCreatedByCLI_def)
    then show ?thesis by (metis empty_iff empty_set)
  qed
  then obtain extra where extra: "calls (snd (syncAppCreatedByCLI c targetApp \<sigma>)) = calls \<sigma>3 @ extra"
      "CallStoreProject \<notin> set extra"
    by blast
  have "calls (snd (syncAppCreatedByCLI c targetApp \<sigma>)) =
          calls \<sigma> @ [CallShouldSyncMetaFromCLI False, CallConvertApp2DatastoreApp, CallStoreTargets] @
            (rest @ extra)"
    using rest(1) extra(1) by simp
  moreover have "CallStoreProject \<notin> set (rest @ extra)"
    using rest(2) extra(2) by simp
  ultimately show ?thesis by blast
qed

theorem syncAppCreatedByCLI_without_project_witness:
  "Project (mem_dsApp ''web-ns-b'' ''ns-b'') = None \<and>
   (\<exists>rest. calls (snd (syncAppCreatedByCLI (mem_CR2UX False True True None) (web_cr Map.empty None)
                         (start store_bare))) =
      [CallShouldSyncMetaFromCLI False, CallConvertApp2DatastoreApp, CallStoreTargets] @ rest \<and>
      CallStoreProject \<notin> set rest)"
proof -
  let ?c = "mem_CR2UX False True True None"
  have gate: "shouldSyncMetaFromCLI ?c (web_cr Map.empty None) False (world (start store_bare))
                (cache (start store_bare)) = (True, Map.empty)"
    by (simp add: mem_gate start_def)
  have conv: "ConvertApp2DatastoreApp ?c (web_cr Map.empty None) (world (start store_bare)) =
                (Inr (mem_dsApp ''web-ns-b'' ''ns-b''), store_bare)"
    by (simp add: mem_convert_bare start_def)
  have noproj: "Project (mem_dsApp ''web-ns-b'' ''ns-b'') = None"
    by (simp add: mem_dsApp_def)
  show ?thesis
    using syncAppCreatedByCLI_without_project [OF gate conv noproj] noproj
    by (simp add: start_def)
qed

text \<open>
  C7. For a CLI-origin resource without publish version whose status carries a workflow,
  once the guarded block has ended without error, \<open>AddOrUpdate\<close> is the call of
  \<open>SyncWorkflowRecord\<close> whose record name is the status \<open>AppRevision\<close> with its first
  colon replaced by a hyphen.
\<close>

theorem AddOrUpdate_fallback_record_name:
  assumes "\<not> appFromUX c targetApp"
    and "appFromCLI c targetApp"
    and "GetPublishVersion c targetApp = []"
    and "cr_Status_Workflow targetApp = Some workflow"
    and "syncMetaFromCLI c targetApp \<sigma> = (None, \<sigma>1)"
  shows "AddOrUpdate c targetApp \<sigma> =
           invoke
             (CallSyncWorkflowRecord
                (getAppMetaName c (cr_Name targetApp) (cr_Namespace targetApp) (world \<sigma>1))
                (first_colon_to_hyphen (AppRevision workflow)))
             (SyncWorkflowRecord c
                (getAppMetaName c (cr_Name targetApp) (cr_Namespace targetApp) (world \<sigma>1))
                (first_colon_to_hyphen (AppRevision workflow)) targetApp)
             \<sigma>1"
  using assms
  by (simp add: AddOrUpdate_def syncAppCreatedByCLI_forward strings_Replace_first_colon)

theorem AddOrUpdate_fallback_record_name_witness:
  "AddOrUpdate (mem_CR2UX False True False None)
     (web_cr Map.empty (Some \<lparr>AppRevision = ''web-v3:abc:def''\<rparr>)) (start store_bare) =
   (None, \<lparr>world = store_bare, cache = Map.empty,
           calls = [CallShouldSyncMetaFromCLI False,
                    CallSyncWorkflowRecord ''web-ns-b'' ''web-v3-abc:def'']\<rparr>)"
proof -
  let ?c = "mem_CR2UX False True False None"
  let ?app = "web_cr Map.empty (Some \<lparr>AppRevision = ''web-v3:abc:def''\<rparr>)"
  have m: "syncMetaFromCLI ?c ?app (start store_bare) =
             (None, \<lparr>world = store_bare, cache = Map.empty, calls = [CallShouldSyncMetaFromCLI False]\<rparr>)"
    using syncMetaFromCLI_not_due [of ?c ?app "start store_bare" Map.empty]
    by (simp add: mem_gate start_def)
  have k: "getAppMetaName ?c ''web'' ''ns-b'' store_bare = ''web-ns-b''"
    by (simp add: getAppMetaName_def getApp_def mem_CR2UX_def mem_base_def mem_Get_def
        store_bare_def record_a_def formatAppComposedName_def go_index_def)
  have ux: "\<not> appFromUX ?c ?app" and cli: "appFromCLI ?c ?app"
    by (simp_all add: mem_CR2UX_def mem_base_def)
  have pv: "GetPublishVersion ?c ?app = []"
    by (simp add: GetPublishVersion_def web_cr_def go_index_def)
  have st: "cr_Status_Workflow ?app = Some \<lparr>AppRevision = ''web-v3:abc:def''\<rparr>"
    by (simp add: web_cr_def)
  have r: "first_colon_to_hyphen ''web-v3:abc:def'' = ''web-v3-abc:def''"
    by (simp add: first_colon_to_hyphen_def)
  have s: "SyncWorkflowRecord ?c = (\<lambda>appPrimaryKey recordName targetApp m. (None, m))"
    by (simp add: mem_CR2UX_def mem_base_def)
  show ?thesis
    using AddOrUpdate_fallback_record_name [OF ux cli pv st m]
    by (simp add: k r s invoke_def web_cr_def)
qed

text \<open>
  C3. The claim is that, for a CLI-origin resource with neither publish version nor
  workflow status, \<open>SyncWorkflowRecord\<close> is not invoked. The source logs its warning
  ("skip sync workflow status") in that branch and then reaches the call all the same.
  At the resource \<open>web\<close> of namespace \<open>ns-b\<close>, without annotations and without workflow
  status, \<open>SyncWorkflowRecord\<close> is invoked, with the empty record name.
\<close>

theorem AddOrUpdate_no_version_still_syncs:
  "GetPublishVersion (mem_CR2UX False True False None) (web_cr Map.empty None) = [] \<and>
   cr_Status_Workflow (web_cr Map.empty None) = None \<and>
   AddOrUpdate (mem_CR2UX False True False None) (web_cr Map.empty None) (start store_bare) =
     (None, \<lparr>world = store_bare, cache = Map.empty,
             calls = [CallShouldSyncMetaFromCLI False, CallSyncWorkflowRecord ''web-ns-b'' []]\<rparr>)"
proof -
  let ?c = "mem_CR2UX False True False None"
  let ?app = "web_cr Map.empty None"
  have m: "syncMetaFromCLI ?c ?app (start store_bare) =
             (None, \<lparr>world = store_bare, cache = Map.empty, calls = [CallShouldSyncMetaFromCLI False]\<rparr>)"
    using syncMetaFromCLI_not_due [of ?c ?app "start store_bare" Map.empty]
    by (simp add: mem_gate start_def)
  have k: "getAppMetaName ?c ''web'' ''ns-b'' store_bare = ''web-ns-b''"
    by (simp add: getAppMetaName_def getApp_def mem_CR2UX_def mem_base_def mem_Get_def
        store_bare_def record_a_def formatAppComposedName_def go_index_def)
  have pv: "GetPublishVersion ?c ?app = []"
    by (simp add: GetPublishVersion_def web_cr_def go_index_def)
  have st: "cr_Status_Workflow ?app = None"
    by (simp add: web_cr_def)
  have s: "SyncWorkflowRecord ?c = (\<lambda>appPrimaryKey recordName targetApp m. (None, m))"
    and d: "\<not> appFromUX ?c ?app" "appFromCLI ?c ?app"
    by (simp_all add: mem_CR2UX_def mem_base_def)
  have nm: "cr_Name ?app = ''web''" "cr_Namespace ?app = ''ns-b''"
    by (simp_all add: web_cr_def)
  have fw: "syncAppCreatedByCLI ?c ?app (start store_bare) =
          (None, \<lparr>world = store_bare, cache = Map.empty,
                  calls = [CallShouldSyncMetaFromCLI False, CallSyncWorkflowRecord ''web-ns-b'' []]\<rparr>)"
    using syncAppCreatedByCLI_forward [OF m] by (simp add: pv st k s nm invoke_def)
  have "AddOrUpdate ?c ?app (start store_bare) =
          (None, \<lparr>world = store_bare, cache = Map.empty,
                  calls = [CallShouldSyncMetaFromCLI False, CallSyncWorkflowRecord ''web-ns-b'' []]\<rparr>)"
    using d fw by (simp add: AddOrUpdate_def)
  with pv st show ?thesis by simp
qed

section \<open>Properties of the delete handler\<close>

text \<open>
  C5. For a delete event on a CLI-origin resource, with no application service
  configured and with a record found under the composed key (whose name, its primary
  key, is that key), \<open>DeleteApp\<close> is the single call of the store's delete on the
  composed key. Over a store whose delete leaves the other keys as they were, the
  record under the bare name reads after \<open>DeleteApp\<close> as it read before.
\<close>

theorem DeleteApp_composed_record:
  assumes "appFromCLI c targetApp"
    and "DeleteApplication c = None"
    and "ds_Get c \<lparr>Name = formatAppComposedName (cr_Name targetApp) (cr_Namespace targetApp),
                   Labels = Map.empty\<rparr> (world \<sigma>) = Inr r"
    and "Name r = formatAppComposedName (cr_Name targetApp) (cr_Namespace targetApp)"
    and "\<forall>k. k \<noteq> formatAppComposedName (cr_Name targetApp) (cr_Namespace targetApp) \<longrightarrow>
           ds_Get c \<lparr>Name = k, Labels = Map.empty\<rparr>
             (snd (ds_Delete c
                     \<lparr>Name = formatAppComposedName (cr_Name targetApp) (cr_Namespace targetApp),
                      Labels = Map.empty\<rparr> (world \<sigma>))) =
           ds_Get c \<lparr>Name = k, Labels = Map.empty\<rparr> (world \<sigma>)"
  shows "DeleteApp c targetApp \<sigma> =
           invoke (CallDsDelete (formatAppComposedName (cr_Name targetApp) (cr_Namespace targetApp)))
             (ds_Delete c
                \<lparr>Name = formatAppComposedName (cr_Name targetApp) (cr_Namespace targetApp),
                 Labels = Map.empty\<rparr>) \<sigma> \<and>
         ds_Get c \<lparr>Name = cr_Name targetApp, Labels = Map.empty\<rparr>
             (world (snd (DeleteApp c targetApp \<sigma>))) =
           ds_Get c \<lparr>Name = cr_Name targetApp, Labels = Map.empty\<rparr> (world \<sigma>)"
proof -
  let ?key = "formatAppComposedName (cr_Name targetApp) (cr_Namespace targetApp)"
  have g: "getApp c (cr_Name targetApp) (cr_Namespace targetApp) (world \<sigma>) = (Some r, ?key, None)"
    using assms(3,4) by (simp add: getApp_def)
  have d: "DeleteApp c targetApp \<sigma> =
             invoke (CallDsDelete ?key) (ds_Delete c \<lparr>Name = ?key, Labels = Map.empty\<rparr>) \<sigma>"
    using assms(1,2) g by (simp add: DeleteApp_def)
  show ?thesis
    using d assms(5) formatAppComposedName_neq [of targetApp "cr_Namespace targetApp"]
    by (simp add: invoke_world)
qed

theorem DeleteApp_composed_record_witness:
  "DeleteApp (mem_CR2UX False True False None) (web_cr Map.empty None) (start store_both) =
     (None, \<lparr>world = store_both(''web-ns-b'' := None), cache = Map.empty,
             calls = [CallDsDelete ''web-ns-b'']\<rparr>) \<and>
   mem_Get \<lparr>Name = ''web'', Labels = Map.empty\<rparr>
     (world (snd (DeleteApp (mem_CR2UX False True False None) (web_cr Map.empty None)
                    (start store_both)))) =
   Inr record_a"
  using DeleteApp_composed_record [of "mem_CR2UX False True False None" "web_cr Map.empty None"
      "start store_both" record_b]
  by (simp add: mem_CR2UX_def mem_base_def web_cr_def start_def store_both_def record_b_def
      mem_Get_def mem_Delete_def formatAppComposedName_def invoke_def)

end
